theory Spec2Isabelle
  imports Complex_Main
begin

section \<open>Python values and library calls\<close>

text \<open>
  Python \<open>float\<close> is modelled by \<^typ>\<open>real\<close>: arithmetic is exact, without rounding,
  overflow or NaN, and the constants \<open>1e-3\<close> and \<open>1e-4\<close> are the rationals they
  denote.  Python \<open>int\<close> is \<^typ>\<open>int\<close>.  Every operation of the source that can raise
  returns a sum, \<open>Inl\<close> carrying the exception.
\<close>

datatype error = ZeroDivisionError | ValueError

text \<open>\<open>a / b\<close> on floats raises \<open>ZeroDivisionError\<close> for a zero divisor.\<close>

definition py_truediv :: "real \<Rightarrow> real \<Rightarrow> error + real" where
  "py_truediv a b = (if b = 0 then Inl ZeroDivisionError else Inr (a / b))"


definition math_sqrt :: "real \<Rightarrow> error + real" where
  "math_sqrt x = (if 0 \<le> x then Inr (sqrt x) else Inl ValueError)"

section \<open>PhaseGeometry\<close>






section \<open>IconRenderer\<close>

subsection \<open>Configuration and pixels\<close>

type_synonym rgb = "nat \<times> nat \<times> nat"
type_synonym rgba = "nat \<times> nat \<times> nat \<times> nat"
type_synonym bbox = "int \<times> int \<times> int \<times> int"

text \<open>An image is read and written at pixel coordinates \<open>(px, py)\<close>.\<close>

type_synonym 'a image = "int \<times> int \<Rightarrow> 'a"

definition SIZE :: int where "SIZE = 128"
definition MARGIN :: int where "MARGIN = 8"
definition BG :: rgb where "BG = (255, 255, 255)"
definition MOON :: rgb where "MOON = (255, 214, 0)"
definition SHADOW :: rgb where "SHADOW = (0, 0, 0)"

text \<open>\<open>BG + (255,)\<close>: a colour with an alpha channel appended.\<close>

definition with_alpha :: "rgb \<Rightarrow> nat \<Rightarrow> rgba" where
  "with_alpha c a = (case c of (red, green, blue) \<Rightarrow> (red, green, blue, a))"


subsection \<open>The libraries the renderer calls\<close>

text \<open>
  The renderer decides each pixel by the sign of a number computed from \<open>math.radians\<close>,
  \<open>math.sin\<close> and \<open>math.cos\<close>.  These three calls are a parameter of the model, so
  that a statement about the pixels holds for the values the platform's library really
  returns; \<open>exact_math\<close> is the instance with the real sine and cosine.
\<close>

record mathlib =
  m_radians :: "real \<Rightarrow> real"
  m_sin :: "real \<Rightarrow> real"
  m_cos :: "real \<Rightarrow> real"



text \<open>
  Pillow's rasteriser and compositor are not part of the repository either.
  \<open>ellipse_fill bbox p\<close> says that \<open>ImageDraw.ellipse(bbox, fill=...)\<close> paints pixel
  \<open>p\<close>, \<open>ellipse_outline bbox p\<close> that \<open>ImageDraw.ellipse(bbox, outline=..., width=1)\<close>
  does, and \<open>composite_pixel dst src\<close> is what \<open>Image.alpha_composite\<close> puts where the
  lower image has \<open>dst\<close> and the upper one \<open>src\<close>.
\<close>

record pil =
  ellipse_fill :: "bbox \<Rightarrow> int \<times> int \<Rightarrow> bool"
  ellipse_outline :: "bbox \<Rightarrow> int \<times> int \<Rightarrow> bool"
  composite_pixel :: "rgba \<Rightarrow> rgba \<Rightarrow> rgba"





subsection \<open>Image operations\<close>

text \<open>\<open>Image.new(mode, (size, size), colour)\<close>: every pixel has the colour.\<close>

definition image_new :: "'a \<Rightarrow> 'a image" where
  "image_new c = (\<lambda>p. c)"

text \<open>\<open>ImageDraw.Draw(im).ellipse(bbox, fill=ink)\<close> and \<open>... outline=ink, width=1\<close>.\<close>

definition draw_ellipse_fill :: "pil \<Rightarrow> bbox \<Rightarrow> 'a \<Rightarrow> 'a image \<Rightarrow> 'a image" where
  "draw_ellipse_fill P b ink im = (\<lambda>p. if ellipse_fill P b p then ink else im p)"

definition draw_ellipse_outline :: "pil \<Rightarrow> bbox \<Rightarrow> 'a \<Rightarrow> 'a image \<Rightarrow> 'a image" where
  "draw_ellipse_outline P b ink im = (\<lambda>p. if ellipse_outline P b p then ink else im p)"

definition alpha_composite :: "pil \<Rightarrow> rgba image \<Rightarrow> rgba image \<Rightarrow> rgba image" where
  "alpha_composite P im1 im2 = (\<lambda>p. composite_pixel P (im1 p) (im2 p))"

text \<open>\<open>im.putalpha(mask)\<close> replaces the alpha channel by the mask.\<close>

definition putalpha :: "rgba image \<Rightarrow> nat image \<Rightarrow> rgba image" where
  "putalpha im msk = (\<lambda>p. case im p of (red, green, blue, a) \<Rightarrow> (red, green, blue, msk p))"

text \<open>\<open>im.convert("RGB")\<close> drops the alpha channel.\<close>

definition convert_rgb :: "rgba image \<Rightarrow> rgb image" where
  "convert_rgb im = (\<lambda>p. case im p of (red, green, blue, a) \<Rightarrow> (red, green, blue))"

subsection \<open>The disk geometry\<close>

text \<open>
  \<^verbatim>\<open>
  cx = cy = size // 2
  r = (size - 2 * margin) // 2
  bbox = (cx - r, cy - r, cx + r, cy + r)
  \<close>
  The parameter \<open>size\<close> is written \<open>sz\<close> below.  Python's \<open>//\<close> and \<open>div\<close> on
  \<^typ>\<open>int\<close> both round towards minus infinity.
\<close>

definition disk_center :: "int \<Rightarrow> int" where
  "disk_center sz = sz div 2"

definition disk_radius :: "int \<Rightarrow> int \<Rightarrow> int" where
  "disk_radius sz margin = (sz - 2 * margin) div 2"

definition disk_bbox :: "int \<Rightarrow> int \<Rightarrow> bbox" where
  "disk_bbox sz margin =
     (let cx = disk_center sz; cy = cx; r = disk_radius sz margin
      in (cx - r, cy - r, cx + r, cy + r))"

subsection \<open>The lit mask\<close>

text \<open>\<open>x % 360.0\<close> on floats: the remainder has the sign of the divisor.\<close>

definition py_fmod :: "real \<Rightarrow> real \<Rightarrow> real" where
  "py_fmod x m = x - m * of_int \<lfloor>x / m\<rfloor>"

text \<open>
  \<^verbatim>\<open>
  sun_angle = math.radians(phase_deg % 360.0)
  sun_dir = (math.sin(sun_angle), 0.0, -math.cos(sun_angle))
  \<close>
\<close>

definition sun_dir :: "mathlib \<Rightarrow> real \<Rightarrow> real \<times> real \<times> real" where
  "sun_dir M phase_deg =
     (let sun_angle = m_radians M (py_fmod phase_deg 360)
      in (m_sin M sun_angle, 0, - m_cos M sun_angle))"

text \<open>
  \<^verbatim>\<open>
  for py in range(size):
      dy = (py - cy) / r
      for px in range(size):
          if moon_pixels[px, py] == 0:
              continue
          dx = (px - cx) / r
          nz_sq = 1.0 - dx * dx - dy * dy
          if nz_sq <= 0.0:
              continue
          dz = math.sqrt(nz_sq)
          dot = dx * sun_dir[0] + dy * sun_dir[1] + dz * sun_dir[2]
          if dot > 0.0:
              lit_pixels[px, py] = 255
  \<close>
  \<open>lit_row\<close> is the inner loop over the columns still to visit, \<open>lit_rows\<close> the outer
  loop over the rows still to visit; both pass the mask written so far.  The two
  divisions raise \<open>ZeroDivisionError\<close> when \<open>r = 0\<close>.
\<close>

fun lit_row ::
  "real \<times> real \<times> real \<Rightarrow> nat image \<Rightarrow> int \<Rightarrow> int \<Rightarrow> real \<Rightarrow> int \<Rightarrow> int list \<Rightarrow>
   nat image \<Rightarrow> error + nat image" where
  "lit_row sun moon_pixels cx r dy py [] lit_pixels = Inr lit_pixels"
| "lit_row sun moon_pixels cx r dy py (px # pxs) lit_pixels =
     (if moon_pixels (px, py) = 0 then lit_row sun moon_pixels cx r dy py pxs lit_pixels
      else
        case py_truediv (of_int (px - cx)) (of_int r) of
          Inl e \<Rightarrow> Inl e
        | Inr dx \<Rightarrow>
            (let nz_sq = 1 - dx * dx - dy * dy in
             if nz_sq \<le> 0 then lit_row sun moon_pixels cx r dy py pxs lit_pixels
             else
               (case math_sqrt nz_sq of
                  Inl e \<Rightarrow> Inl e
                | Inr dz \<Rightarrow>
                    (let dot = dx * fst sun + dy * fst (snd sun) + dz * snd (snd sun) in
                     if dot > 0
                     then lit_row sun moon_pixels cx r dy py pxs (lit_pixels((px, py) := 255))
                     else lit_row sun moon_pixels cx r dy py pxs lit_pixels))))"

fun lit_rows ::
  "real \<times> real \<times> real \<Rightarrow> nat image \<Rightarrow> int \<Rightarrow> int \<Rightarrow> int \<Rightarrow> int \<Rightarrow> int list \<Rightarrow>
   nat image \<Rightarrow> error + nat image" where
  "lit_rows sun moon_pixels sz cx cy r [] lit_pixels = Inr lit_pixels"
| "lit_rows sun moon_pixels sz cx cy r (py # pys) lit_pixels =
     (case py_truediv (of_int (py - cy)) (of_int r) of
        Inl e \<Rightarrow> Inl e
      | Inr dy \<Rightarrow>
          (case lit_row sun moon_pixels cx r dy py [0..sz - 1] lit_pixels of
             Inl e \<Rightarrow> Inl e
           | Inr lit_pixels' \<Rightarrow> lit_rows sun moon_pixels sz cx cy r pys lit_pixels'))"

text \<open>
  The part of \<open>render_moon_icon\<close> that computes \<open>lit_mask\<close>: the geometry (lines 87 to 89),
  the disk mask (91, 92) and the two loops (102 to 125).
\<close>

definition render_lit_mask :: "mathlib \<Rightarrow> pil \<Rightarrow> real \<Rightarrow> int \<Rightarrow> int \<Rightarrow> error + nat image" where
  "render_lit_mask M P phase_deg sz margin =
     (let cx = disk_center sz; cy = cx;
          r = disk_radius sz margin;
          bbox = disk_bbox sz margin;
          moon_mask = draw_ellipse_fill P bbox 255 (image_new 0)
      in lit_rows (sun_dir M phase_deg) moon_mask sz cx cy r [0..sz - 1] (image_new 0))"

subsection \<open>The four layers\<close>

text \<open>
  \<open>render_moon_icon(*, fraction, waxing, phase_deg, size, margin)\<close>: background, shadow
  disk, lit region, outline, composited in this order and converted to RGB.  An exception
  in the loops leaves the function before the lit layer is built.
\<close>

definition render_moon_icon ::
  "mathlib \<Rightarrow> pil \<Rightarrow> real \<Rightarrow> bool \<Rightarrow> real \<Rightarrow> int \<Rightarrow> int \<Rightarrow> error + rgb image" where
  "render_moon_icon M P fraction waxing phase_deg sz margin =
     (let bbox = disk_bbox sz margin;
          result = image_new (with_alpha BG 255);
          base_layer = draw_ellipse_fill P bbox (with_alpha SHADOW 255) (image_new (0, 0, 0, 0));
          result = alpha_composite P result base_layer
      in case render_lit_mask M P phase_deg sz margin of
           Inl e \<Rightarrow> Inl e
         | Inr lit_mask \<Rightarrow>
             let lit_layer = putalpha (image_new (with_alpha MOON 0)) lit_mask;
                 result = alpha_composite P result lit_layer;
                 outline_layer =
                   draw_ellipse_outline P bbox (0, 0, 0, 255) (image_new (0, 0, 0, 0));
                 result = alpha_composite P result outline_layer
             in Inr (convert_rgb result))"

section \<open>Auxiliary notions\<close>






section \<open>The lens formula never leaves its domain\<close>






section \<open>The overlap area as a function of the distance\<close>













section \<open>The returned area and the lit fraction as total functions\<close>










section \<open>The bisection\<close>






section \<open>A Lipschitz bound for the lit fraction\<close>






section \<open>The offset for a lit fraction\<close>












section \<open>The disk geometry\<close>

text \<open>
  C4, amended.  With \<open>center = size // 2\<close> and \<open>radius = (size - 2 margin) // 2\<close>, the sum
  \<open>2 radius + 2 margin\<close> is \<open>size\<close> when \<open>size\<close> is even and \<open>size - 1\<close> when it is odd.
\<close>

theorem disk_geometry_sum:
  "2 * disk_radius sz margin + 2 * margin = (if even sz then sz else sz - 1)"
  unfolding disk_radius_def by presburger

text \<open>
  C4 as stated fails for an odd size: \<open>size = 129\<close> and \<open>margin = 8\<close> are positive with
  \<open>size > 2 margin\<close>, the radius is \<open>56\<close>, and \<open>2 * 56 + 2 * 8\<close> is \<open>128\<close>.
\<close>

theorem disk_geometry_odd_counterexample:
  "(0::int) < 129 \<and> (0::int) < 8 \<and> (129::int) > 2 * 8 \<and>
   disk_center 129 = 64 \<and> disk_radius 129 8 = 56 \<and>
   2 * disk_radius 129 8 + 2 * 8 \<noteq> 129"
  by (simp add: disk_center_def disk_radius_def)

section \<open>The two loops\<close>













section \<open>New moon\<close>









section \<open>Mirror symmetry\<close>













section \<open>The unused parameters\<close>

text \<open>
  C9.  For every phase angle, size and margin, \<open>render_moon_icon\<close> gives the same result,
  image or exception, for any two values of \<open>fraction\<close> and any two values of \<open>waxing\<close>.
\<close>

theorem render_ignores_fraction_and_waxing:
  "render_moon_icon M P f1 w1 phase_deg sz margin =
   render_moon_icon M P f2 w2 phase_deg sz margin"
  by (simp add: render_moon_icon_def)

end
